theory Spec2Isabelle
  imports Main "HOL-Library.Char_ord" "HOL-Library.List_Lexorder"
begin

section \<open>JavaScript values and objects\<close>

text \<open>
  The values that travel through the RethinkDB plug (\<open>src/plugs/rethink.js\<close>, the
  class \<open>RethinkPlug extends DbPlug\<close> with its helpers \<open>swapKeys\<close>,
  \<open>dotPropRethinkKey\<close> and \<open>deepMatch\<close>). Numbers are kept integral. Nested objects and arrays are stored with their entries in
  order; a top-level object handled by the codec is a finite map from property names to
  values, so that equality of two objects is deep equality and does not depend on the
  order in which properties were written.
\<close>

datatype jsval =
    JUndefined
  | JNull
  | JBool bool
  | JNum int
  | JStr string
  | JArr "jsval list"
  | JObj "(string \<times> jsval) list"

type_synonym jsobj = "string \<rightharpoonup> jsval"

text \<open>\<open>v != null\<close> is the loose comparison: it is false for \<open>null\<close> and for \<open>undefined\<close>.\<close>

definition loosely_null :: "jsval \<Rightarrow> bool" where
  "loosely_null v = (v = JNull \<or> v = JUndefined)"

text \<open>\<open>obj.hasOwnProperty (k) ? obj[k] : null\<close>\<close>

definition own_or_null :: "jsobj \<Rightarrow> string \<Rightarrow> jsval" where
  "own_or_null obj k = (case obj k of None \<Rightarrow> JNull | Some v \<Rightarrow> v)"

text \<open>\<open>obj[k]\<close>: reading a property that is not there gives \<open>undefined\<close>.\<close>

definition get_prop :: "jsobj \<Rightarrow> string \<Rightarrow> jsval" where
  "get_prop obj k = (case obj k of None \<Rightarrow> JUndefined | Some v \<Rightarrow> v)"

section \<open>The document codec\<close>

text \<open>
  \<open>swapKeys (key1, key2, obj)\<close>: copy the object, read both values (null when the key
  is not an own property), delete both keys, then write each value back under the other
  key, but only when it is not loosely null.
\<close>

definition swapKeys :: "string \<Rightarrow> string \<Rightarrow> jsobj \<Rightarrow> jsobj" where
  "swapKeys key1 key2 obj =
    (let val1 = own_or_null obj key1;
         val2 = own_or_null obj key2;
         deleted = (obj(key1 := None))(key2 := None);
         with1 = (if \<not> loosely_null val1 then deleted(key2 \<mapsto> val1) else deleted)
     in (if \<not> loosely_null val2 then with1(key1 \<mapsto> val2) else with1))"

text \<open>The generic model record \<open>{ id, object }\<close> returned by \<open>_handleRawModel\<close>.\<close>

record model_record =
  record_id :: jsval
  object :: jsobj

text \<open>
  \<open>_handleRawModel (rawModelObject)\<close>: a null document gives null; otherwise swap
  \<open>id\<close> and \<open>_id\<close>, read \<open>_id\<close> as the model id (undefined when it is not there),
  delete it and return the rest as the object.
\<close>

definition handleRawModel :: "jsobj option \<Rightarrow> model_record option" where
  "handleRawModel rawModelObject =
    (case rawModelObject of
       None \<Rightarrow> None
     | Some raw \<Rightarrow>
         (let swapped = swapKeys ''id'' ''_id'' raw;
              modelId = get_prop swapped ''_id''
          in Some \<lparr> record_id = modelId, object = swapped(''_id'' := None) \<rparr>))"

text \<open>
  The document that \<open>replaceById (collectionId, id, newObject)\<close> hands to the backend:
  the swapped object with the native primary key \<open>id\<close> forced to the model id.
\<close>

definition replaceById_doc :: "jsval \<Rightarrow> jsobj \<Rightarrow> jsobj" where
  "replaceById_doc rid newObject = (swapKeys ''id'' ''_id'' newObject)(''id'' \<mapsto> rid)"

text \<open>The document that \<open>insert (collectionId, object)\<close> hands to \<open>table.insert\<close>.\<close>

definition insert_doc :: "jsobj \<Rightarrow> jsobj" where
  "insert_doc obj = swapKeys ''id'' ''_id'' obj"

section \<open>Strings: split, join and the two orderings\<close>

text \<open>\<open>key.split ('.')\<close>: the result is never empty (\<open>''.split ('.')\<close> is \<open>['']\<close>).\<close>

fun split_on :: "char \<Rightarrow> string \<Rightarrow> string list" where
  "split_on c [] = [[]]"
| "split_on c (x # xs) =
     (if x = c then [] # split_on c xs
      else (case split_on c xs of [] \<Rightarrow> [[x]] | w # ws \<Rightarrow> (x # w) # ws))"

text \<open>\<open>parts.join (sep)\<close>\<close>

fun join :: "string \<Rightarrow> string list \<Rightarrow> string" where
  "join sep [] = []"
| "join sep [x] = x"
| "join sep (x # y # ys) = x @ sep @ join sep (y # ys)"

text \<open>
  \<open>keys.sort ()\<close> without a comparator orders strings by their code units; on the
  characters of type \<^typ>\<open>char\<close> that is the lexicographic order of \<^typ>\<open>string\<close>,
  and the sorted array is \<^term>\<open>sort keys\<close>.

  \<open>entries.sort (compare)\<close> with a comparator is a stable sort: \<open>a\<close> stays before
  \<open>b\<close> unless \<open>compare (a, b) > 0\<close>. For a comparator that is a consistent ordering
  every stable sorting algorithm gives the same array; insertion sort is used here.
\<close>

fun insert_by :: "('a \<Rightarrow> 'a \<Rightarrow> int) \<Rightarrow> 'a \<Rightarrow> 'a list \<Rightarrow> 'a list" where
  "insert_by compare x [] = [x]"
| "insert_by compare x (y # ys) =
     (if compare x y \<le> 0 then x # y # ys else y # insert_by compare x ys)"

definition sort_by :: "('a \<Rightarrow> 'a \<Rightarrow> int) \<Rightarrow> 'a list \<Rightarrow> 'a list" where
  "sort_by compare xs = foldr (insert_by compare) xs []"

text \<open>
  \<open>a.localeCompare (b)\<close> is the host's locale-sensitive collation; it is not part of the
  repository, so every function that calls it takes it as the parameter \<open>localeCompare\<close>.
  One collation is written out for concrete runs: letters are compared ignoring case first
  and, when equal that way, by code unit. On ASCII letters it agrees with the ICU root
  collation in placing \<open>a\<close> before \<open>B\<close>, where the code-unit order places \<open>B\<close> (66)
  before \<open>a\<close> (97).
\<close>

definition lower_char :: "char \<Rightarrow> char" where
  "lower_char c =
     (if CHR ''A'' \<le> c \<and> c \<le> CHR ''Z'' then char_of (of_char c + (32::nat)) else c)"

definition caseless_localeCompare :: "string \<Rightarrow> string \<Rightarrow> int" where
  "caseless_localeCompare a b =
     (let la = map lower_char a; lb = map lower_char b
      in if la < lb then - 1 else if lb < la then 1
         else if a < b then - 1 else if b < a then 1 else 0)"

section \<open>ReQL terms and cursors\<close>

text \<open>
  What the plug builds with the RethinkDB driver is kept as syntax: a predicate term over
  the current row (\<open>R.row\<close>) or over the element bound by \<open>contains\<close>, and a cursor
  that starts at a table.
\<close>

datatype cmp_op = GT | LT | GE | LE

datatype reql =
    Row
  | ElemVar
  | Bracket reql string
  | Default reql jsval
  | Eq reql jsval
  | Ne reql jsval
  | Match reql string
  | Cmp cmp_op reql jsval
  | And reql reql
  | OrArgs "reql list"
  | AndArgs "reql list"
  | Contains reql reql
  | EmptyObject

text \<open>A value of a match map: a literal, or a regular expression (source and flags).\<close>

datatype matchval = Lit jsval | RegExp string string

text \<open>A match map, as \<open>Object.entries\<close> lists it.\<close>

type_synonym match_map = "(string \<times> matchval) list"

datatype getall_keys =
    OneKey matchval
  | KeyArray "matchval list"
  | Args "matchval list"

datatype ordering =
    IndexAsc string
  | IndexDesc string
  | Asc reql
  | Desc reql

datatype cursor =
    Table string
  | GetAll cursor getall_keys string
  | Filter cursor reql
  | Limit cursor int
  | Skip cursor int
  | OrderBy cursor ordering

section \<open>The deep matcher\<close>

text \<open>
  \<open>regexToGoodString (re)\<close>: \<open>re.toString ()\<close> is \<open>/source/flags\<close>; the greedy match
  \<open>/\/(.*)\/(.*)/\<close> takes the source as the first group and the flags as the second.
\<close>

definition regexToGoodString :: "string \<Rightarrow> string \<Rightarrow> string" where
  "regexToGoodString source flags =
     (if length flags > 0 then ''(?'' @ flags @ '')'' else []) @ source"

text \<open>The swap of \<open>id\<close> and \<open>_id\<close> on the first part of a key.\<close>

definition swap_id_part :: "string \<Rightarrow> string" where
  "swap_id_part keyPart =
     (if keyPart = ''id'' then ''_id'' else if keyPart = ''_id'' then ''id'' else keyPart)"

text \<open>
  \<open>dotPropRethinkKey (key, initialCursor = null)\<close>: the first part selects from
  \<open>initialCursor\<close> (from \<open>R.row\<close> when that is null) after the id swap, each later part
  selects from the term built so far.
\<close>

definition dotPropRethinkKey :: "string \<Rightarrow> reql option \<Rightarrow> reql" where
  "dotPropRethinkKey key initialCursor =
     (let keyParts = split_on CHR ''.'' key;
          base = (case initialCursor of None \<Rightarrow> Row | Some c \<Rightarrow> c)
      in foldl Bracket (Bracket base (swap_id_part (hd keyParts))) (tl keyParts))"

text \<open>One entry of a match map: \<open>match\<close> for a regular expression, \<open>eq\<close> after
  \<open>default (null)\<close> for anything else.\<close>

definition deepMatch_part :: "reql option \<Rightarrow> string \<Rightarrow> matchval \<Rightarrow> reql" where
  "deepMatch_part initialCursor filterKey filterVal =
     (case filterVal of
        RegExp source flags \<Rightarrow>
          Match (dotPropRethinkKey filterKey initialCursor) (regexToGoodString source flags)
      | Lit v \<Rightarrow> Eq (Default (dotPropRethinkKey filterKey initialCursor) JNull) v)"

text \<open>The loop of \<open>deepMatch\<close>, with \<open>filterPart\<close> as the accumulator (null is None).\<close>

fun deepMatch_loop :: "reql option \<Rightarrow> match_map \<Rightarrow> reql option \<Rightarrow> reql option" where
  "deepMatch_loop initialCursor [] filterPart = filterPart"
| "deepMatch_loop initialCursor ((filterKey, filterVal) # rest) filterPart =
     (let filterPartMatch = deepMatch_part initialCursor filterKey filterVal
      in deepMatch_loop initialCursor rest
           (Some (case filterPart of
                    Some acc \<Rightarrow> And filterPartMatch acc
                  | None \<Rightarrow> filterPartMatch)))"

definition deepMatch :: "match_map \<Rightarrow> reql option \<Rightarrow> reql" where
  "deepMatch match initialCursor =
     (case deepMatch_loop initialCursor match None of
        Some filterPart \<Rightarrow> filterPart
      | None \<Rightarrow> EmptyObject)"

section \<open>The translation engine\<close>

text \<open>
  A query part is tagged by its \<open>type\<close> string. The tags that \<open>_queryToCursor\<close> tests
  for have a constructor each; a part with any other tag is \<open>Pt_other\<close> with its tag.
  The filter of an \<open>elem\<close> part is a match map (an object, whose values may be regular
  expressions) or any other value.
\<close>

datatype elem_filter = ElemValue jsval | ElemMatch match_map

datatype queryPt =
    Pt_filter match_map
  | Pt_elem string elem_filter
  | Pt_ne string jsval
  | Pt_nin string "jsval list"
  | Pt_in string "matchval list"
  | Pt_whereOr "match_map list"
  | Pt_whereAnd "match_map list"
  | Pt_limit int
  | Pt_skip int
  | Pt_sort string bool
  | Pt_gt string jsval
  | Pt_lt string jsval
  | Pt_gte string jsval
  | Pt_lte string jsval
  | Pt_other string

fun type_tag :: "queryPt \<Rightarrow> string" where
  "type_tag (Pt_filter f) = ''filter''"
| "type_tag (Pt_elem k f) = ''elem''"
| "type_tag (Pt_ne k v) = ''ne''"
| "type_tag (Pt_nin k vs) = ''nin''"
| "type_tag (Pt_in k vs) = ''in''"
| "type_tag (Pt_whereOr ms) = ''whereOr''"
| "type_tag (Pt_whereAnd ms) = ''whereAnd''"
| "type_tag (Pt_limit n) = ''limit''"
| "type_tag (Pt_skip n) = ''skip''"
| "type_tag (Pt_sort k d) = ''sort''"
| "type_tag (Pt_gt k v) = ''gt''"
| "type_tag (Pt_lt k v) = ''lt''"
| "type_tag (Pt_gte k v) = ''gte''"
| "type_tag (Pt_lte k v) = ''lte''"
| "type_tag (Pt_other t) = t"

text \<open>
  The readiness futures \<open>this._preparedTables\<close>, as far as \<open>_getTable\<close> sees them when
  it awaits one: resolved, or rejected with the backend's error. Awaiting the entry of a
  collection that has none is awaiting \<open>undefined\<close>.
\<close>

datatype backend_error = AlreadyExists string | BackendFailure string

datatype settled = Resolved | Rejected backend_error

text \<open>
  What \<open>_queryToCursor\<close> can throw: the rejection of the readiness future that
  \<open>_getTable\<close> awaits, and the \<open>TypeError\<close> of \<open>Object.entries (null)\<close> in
  \<open>deepMatch\<close>. The driver also refuses to build a term from a literal that is
  \<open>undefined\<close>; that is behaviour of the library and is left out: the literals of a
  descriptor are taken to be defined.
\<close>

datatype query_error = Rejection backend_error | TypeError

text \<open>The index registry \<open>this._indexes\<close>: collection id to the set of index names.\<close>

type_synonym index_registry = "string \<rightharpoonup> string set"

text \<open>\<open>this._indexes.has (collectionId) && this._indexes.get (collectionId).has (name)\<close>\<close>

definition has_index :: "index_registry \<Rightarrow> string \<Rightarrow> string \<Rightarrow> bool" where
  "has_index indexes collectionId name =
     (case indexes collectionId of None \<Rightarrow> False | Some names \<Rightarrow> name \<in> names)"

text \<open>\<open>Object.keys (filter).sort ().join ('+')\<close>\<close>

definition rethinkIndexName :: "string list \<Rightarrow> string" where
  "rethinkIndexName keys = join ''+'' (sort keys)"

text \<open>The values of a filter, its entries sorted by \<open>localeCompare\<close> on their keys.\<close>

definition filter_values :: "(string \<Rightarrow> string \<Rightarrow> int) \<Rightarrow> match_map \<Rightarrow> matchval list" where
  "filter_values localeCompare f =
     map snd (sort_by (\<lambda>a b. localeCompare (fst a) (fst b)) f)"

text \<open>The three-way choice shared by \<open>in\<close>, \<open>whereOr\<close> and \<open>whereAnd\<close>: no filter for
  no predicate, the predicate itself for one, the combination for two or more.\<close>

definition filter_combined :: "(reql list \<Rightarrow> reql) \<Rightarrow> cursor \<Rightarrow> reql list \<Rightarrow> cursor" where
  "filter_combined combine c matchFilters =
     (if length matchFilters = 0 then c
      else if length matchFilters = 1 then Filter c (matchFilters ! 0)
      else Filter c (combine matchFilters))"

text \<open>The decimal numeral of an array index, as \<open>Object.entries\<close> of an array names it.\<close>

fun decimal :: "nat \<Rightarrow> string" where
  "decimal n =
     (if n < 10 then [char_of (48 + n)]
      else decimal (n div 10) @ [char_of (48 + n mod 10)])"

declare decimal.simps [simp del]

text \<open>
  The function that the \<open>elem\<close> branch hands to \<open>contains\<close>; the driver calls it while
  the term is built. A filter whose \<open>typeof\<close> is not \<open>'object'\<close> is compared with the
  element by \<open>eq\<close>. Every other filter goes to \<open>deepMatch\<close>, whose
  \<open>Object.entries\<close> throws on null, lists the properties of an object and lists the
  elements of an array under their indices.
\<close>

definition elem_predicate :: "elem_filter \<Rightarrow> query_error + reql" where
  "elem_predicate ef =
     (case ef of
        ElemMatch m \<Rightarrow> Inr (deepMatch m (Some ElemVar))
      | ElemValue JNull \<Rightarrow> Inl TypeError
      | ElemValue (JObj entries) \<Rightarrow>
          Inr (deepMatch (map (\<lambda>(k, v). (k, Lit v)) entries) (Some ElemVar))
      | ElemValue (JArr xs) \<Rightarrow>
          Inr (deepMatch (zip (map decimal [0..<length xs]) (map Lit xs)) (Some ElemVar))
      | ElemValue v \<Rightarrow> Inr (Eq ElemVar v))"

text \<open>
  One iteration of the loop of \<open>_queryToCursor\<close> over \<open>query.pts\<close>, without the
  assignment to \<open>cursorIsTable\<close> that ends it.
\<close>

fun apply_queryPt ::
  "(string \<Rightarrow> string \<Rightarrow> int) \<Rightarrow> index_registry \<Rightarrow> string \<Rightarrow> cursor \<Rightarrow> bool \<Rightarrow> queryPt
     \<Rightarrow> query_error + cursor"
where
  "apply_queryPt lc indexes cid c cursorIsTable (Pt_filter f) =
     (let name = rethinkIndexName (map fst f)
      in if cursorIsTable \<and> has_index indexes cid name
         then (let values = filter_values lc f
               in if length values = 1 then Inr (GetAll c (OneKey (values ! 0)) name)
                  else Inr (GetAll c (KeyArray values) name))
         else Inr (Filter c (deepMatch f None)))"
| "apply_queryPt lc indexes cid c cursorIsTable (Pt_elem arrKey ef) =
     (case elem_predicate ef of
        Inl err \<Rightarrow> Inl err
      | Inr p \<Rightarrow> Inr (Filter c (Contains (dotPropRethinkKey arrKey None) p)))"
| "apply_queryPt lc indexes cid c cursorIsTable (Pt_ne key val) =
     Inr (Filter c (Ne (Default (dotPropRethinkKey key None) JNull) val))"
| "apply_queryPt lc indexes cid c cursorIsTable (Pt_nin key vals) =
     Inr (foldl (\<lambda>cur val. Filter cur (Ne (Default (dotPropRethinkKey key None) JNull) val))
            c vals)"
| "apply_queryPt lc indexes cid c cursorIsTable (Pt_in key vals) =
     (if cursorIsTable \<and> has_index indexes cid key
      then Inr (GetAll c (Args vals) key)
      else Inr (filter_combined OrArgs c (map (\<lambda>val. deepMatch [(key, val)] None) vals)))"
| "apply_queryPt lc indexes cid c cursorIsTable (Pt_whereOr matches) =
     Inr (filter_combined OrArgs c (map (\<lambda>m. deepMatch m None) matches))"
| "apply_queryPt lc indexes cid c cursorIsTable (Pt_whereAnd matches) =
     Inr (filter_combined AndArgs c (map (\<lambda>m. deepMatch m None) matches))"
| "apply_queryPt lc indexes cid c cursorIsTable (Pt_limit limitAmount) =
     Inr (Limit c limitAmount)"
| "apply_queryPt lc indexes cid c cursorIsTable (Pt_skip skipAmount) =
     Inr (Skip c skipAmount)"
| "apply_queryPt lc indexes cid c cursorIsTable (Pt_sort sortKey desc) =
     (if cursorIsTable \<and> has_index indexes cid sortKey
      then Inr (OrderBy c (if desc then IndexDesc sortKey else IndexAsc sortKey))
      else Inr (OrderBy c (if desc then Desc (dotPropRethinkKey sortKey None)
                           else Asc (dotPropRethinkKey sortKey None))))"
| "apply_queryPt lc indexes cid c cursorIsTable (Pt_gt key bound) =
     Inr (Filter c (Cmp GT (dotPropRethinkKey key None) bound))"
| "apply_queryPt lc indexes cid c cursorIsTable (Pt_lt key bound) =
     Inr (Filter c (Cmp LT (dotPropRethinkKey key None) bound))"
| "apply_queryPt lc indexes cid c cursorIsTable (Pt_gte key bound) =
     Inr (Filter c (Cmp GE (dotPropRethinkKey key None) bound))"
| "apply_queryPt lc indexes cid c cursorIsTable (Pt_lte key bound) =
     Inr (Filter c (Cmp LE (dotPropRethinkKey key None) bound))"
| "apply_queryPt lc indexes cid c cursorIsTable (Pt_other tag) = Inr c"

text \<open>The loop state is the cursor and \<open>cursorIsTable\<close>; every iteration that does not
  throw ends with \<open>cursorIsTable = false\<close>.\<close>

definition queryPt_step ::
  "(string \<Rightarrow> string \<Rightarrow> int) \<Rightarrow> index_registry \<Rightarrow> string \<Rightarrow> cursor \<times> bool \<Rightarrow> queryPt
     \<Rightarrow> query_error + cursor \<times> bool"
where
  "queryPt_step lc indexes cid state queryPt =
     (case apply_queryPt lc indexes cid (fst state) (snd state) queryPt of
        Inl err \<Rightarrow> Inl err
      | Inr c \<Rightarrow> Inr (c, False))"

text \<open>The loop from a given state: it stops at the first part that throws.\<close>

fun loop_from ::
  "(string \<Rightarrow> string \<Rightarrow> int) \<Rightarrow> index_registry \<Rightarrow> string \<Rightarrow> cursor \<times> bool \<Rightarrow> queryPt list
     \<Rightarrow> query_error + cursor \<times> bool"
where
  "loop_from lc indexes cid state [] = Inr state"
| "loop_from lc indexes cid state (queryPt # rest) =
     (case queryPt_step lc indexes cid state queryPt of
        Inl err \<Rightarrow> Inl err
      | Inr state' \<Rightarrow> loop_from lc indexes cid state' rest)"

definition queryToCursor_loop ::
  "(string \<Rightarrow> string \<Rightarrow> int) \<Rightarrow> index_registry \<Rightarrow> string \<Rightarrow> queryPt list
     \<Rightarrow> query_error + cursor \<times> bool"
where
  "queryToCursor_loop lc indexes cid pts = loop_from lc indexes cid (Table cid, True) pts"

definition getTable :: "(string \<rightharpoonup> settled) \<Rightarrow> string \<Rightarrow> backend_error + cursor" where
  "getTable preparedTables tableName =
     (case preparedTables tableName of
        Some (Rejected err) \<Rightarrow> Inl err
      | _ \<Rightarrow> Inr (Table tableName))"

text \<open>\<open>_queryToCursor (collectionId, query)\<close>\<close>

definition queryToCursor ::
  "(string \<Rightarrow> string \<Rightarrow> int) \<Rightarrow> index_registry \<Rightarrow> (string \<rightharpoonup> settled) \<Rightarrow> string \<Rightarrow> queryPt list
     \<Rightarrow> query_error + cursor"
where
  "queryToCursor lc indexes preparedTables collectionId pts =
     (case getTable preparedTables collectionId of
        Inl err \<Rightarrow> Inl (Rejection err)
      | Inr table \<Rightarrow>
          (case loop_from lc indexes collectionId (table, True) pts of
             Inl err \<Rightarrow> Inl err
           | Inr state \<Rightarrow> Inr (fst state)))"

section \<open>How the backend evaluates a predicate\<close>

text \<open>
  The predicates are run by the database server. What is fixed here is what ReQL documents
  for the operations the deep matcher relies on: selecting a field (from an object: the
  value, or a non-existence error when the object has no such field; from null: a
  non-existence error; from a number, a string or a boolean: a type error, which is a
  logic error), \<open>default\<close> (its argument replaces a non-existence error and replaces
  null, any other error passes through), \<open>eq\<close> and \<open>ne\<close>, the short-circuit \<open>and\<close>
  and \<open>or\<close> that return the deciding value, and \<open>getAll\<close> with no key at all, which
  selects nothing. Everything else the server decides (selecting a field from an array,
  regular expressions, the order of values, index lookups with keys, sorting) is a field of
  the record \<open>backend\<close>, and the theorems below hold for every backend.
\<close>

datatype reql_error = NonExistence | LogicError

record backend =
  bracket_sequence :: "jsval list \<Rightarrow> string \<Rightarrow> reql_error + jsval"
  match_regex :: "jsval \<Rightarrow> string \<Rightarrow> reql_error + jsval"
  compare_values :: "cmp_op \<Rightarrow> jsval \<Rightarrow> jsval \<Rightarrow> reql_error + jsval"
  contains_other :: "jsval \<Rightarrow> reql_error + jsval"
  index_lookup :: "string \<Rightarrow> getall_keys \<Rightarrow> jsval list \<Rightarrow> reql_error + jsval list"
  ordered :: "ordering \<Rightarrow> jsval list \<Rightarrow> reql_error + jsval list"

definition truthy :: "jsval \<Rightarrow> bool" where
  "truthy v = (v \<noteq> JNull \<and> v \<noteq> JBool False)"

definition bracket :: "backend \<Rightarrow> jsval \<Rightarrow> string \<Rightarrow> reql_error + jsval" where
  "bracket be v k =
     (case v of
        JObj entries \<Rightarrow> (case map_of entries k of None \<Rightarrow> Inl NonExistence | Some w \<Rightarrow> Inr w)
      | JNull \<Rightarrow> Inl NonExistence
      | JArr xs \<Rightarrow> bracket_sequence be xs k
      | _ \<Rightarrow> Inl LogicError)"

fun or_results :: "(reql_error + jsval) list \<Rightarrow> reql_error + jsval" where
  "or_results [] = Inr (JBool False)"
| "or_results [r] = r"
| "or_results (r # rs) =
     (case r of Inl e \<Rightarrow> Inl e | Inr v \<Rightarrow> if truthy v then Inr v else or_results rs)"

fun and_results :: "(reql_error + jsval) list \<Rightarrow> reql_error + jsval" where
  "and_results [] = Inr (JBool True)"
| "and_results [r] = r"
| "and_results (r # rs) =
     (case r of Inl e \<Rightarrow> Inl e | Inr v \<Rightarrow> if truthy v then and_results rs else Inr v)"

fun any_results :: "(reql_error + jsval) list \<Rightarrow> reql_error + jsval" where
  "any_results [] = Inr (JBool False)"
| "any_results (r # rs) =
     (case r of Inl e \<Rightarrow> Inl e
      | Inr v \<Rightarrow> if truthy v then Inr (JBool True) else any_results rs)"

text \<open>\<open>eval be row elem t\<close>: the value of \<open>t\<close> on the document \<open>row\<close>, with \<open>elem\<close>
  the element bound by the enclosing \<open>contains\<close>.\<close>

fun eval :: "backend \<Rightarrow> jsval \<Rightarrow> jsval \<Rightarrow> reql \<Rightarrow> reql_error + jsval" where
  "eval be row elem Row = Inr row"
| "eval be row elem ElemVar = Inr elem"
| "eval be row elem (Bracket t k) =
     (case eval be row elem t of Inl e \<Rightarrow> Inl e | Inr v \<Rightarrow> bracket be v k)"
| "eval be row elem (Default t d) =
     (case eval be row elem t of
        Inl NonExistence \<Rightarrow> Inr d
      | Inl LogicError \<Rightarrow> Inl LogicError
      | Inr v \<Rightarrow> if v = JNull then Inr d else Inr v)"
| "eval be row elem (Eq t v) =
     (case eval be row elem t of Inl e \<Rightarrow> Inl e | Inr w \<Rightarrow> Inr (JBool (w = v)))"
| "eval be row elem (Ne t v) =
     (case eval be row elem t of Inl e \<Rightarrow> Inl e | Inr w \<Rightarrow> Inr (JBool (w \<noteq> v)))"
| "eval be row elem (Match t re) =
     (case eval be row elem t of Inl e \<Rightarrow> Inl e | Inr w \<Rightarrow> match_regex be w re)"
| "eval be row elem (Cmp op t v) =
     (case eval be row elem t of Inl e \<Rightarrow> Inl e | Inr w \<Rightarrow> compare_values be op w v)"
| "eval be row elem (And a b) =
     (case eval be row elem a of
        Inl e \<Rightarrow> Inl e
      | Inr v \<Rightarrow> if truthy v then eval be row elem b else Inr v)"
| "eval be row elem (OrArgs ts) = or_results (map (eval be row elem) ts)"
| "eval be row elem (AndArgs ts) = and_results (map (eval be row elem) ts)"
| "eval be row elem (Contains seq body) =
     (case eval be row elem seq of
        Inl e \<Rightarrow> Inl e
      | Inr (JArr xs) \<Rightarrow> any_results (map (\<lambda>x. eval be row x body) xs)
      | Inr v \<Rightarrow> contains_other be v)"
| "eval be row elem EmptyObject = Inr (JObj [])"

text \<open>
  \<open>cursor.filter (p)\<close> keeps a document when \<open>p\<close> is truthy on it, skips it when \<open>p\<close>
  raises a non-existence error, and fails on any other error.
\<close>

definition filter_keeps :: "backend \<Rightarrow> reql \<Rightarrow> jsval \<Rightarrow> reql_error + bool" where
  "filter_keeps be p doc =
     (case eval be doc JNull p of
        Inl NonExistence \<Rightarrow> Inr False
      | Inl LogicError \<Rightarrow> Inl LogicError
      | Inr v \<Rightarrow> Inr (truthy v))"

fun filter_docs :: "backend \<Rightarrow> reql \<Rightarrow> jsval list \<Rightarrow> reql_error + jsval list" where
  "filter_docs be p [] = Inr []"
| "filter_docs be p (d # ds) =
     (case filter_keeps be p d of
        Inl e \<Rightarrow> Inl e
      | Inr keep \<Rightarrow>
          (case filter_docs be p ds of
             Inl e \<Rightarrow> Inl e
           | Inr rest \<Rightarrow> Inr (if keep then d # rest else rest)))"

text \<open>Running a cursor on the documents of its table.\<close>

fun run :: "backend \<Rightarrow> (string \<Rightarrow> jsval list) \<Rightarrow> cursor \<Rightarrow> reql_error + jsval list" where
  "run be tables (Table t) = Inr (tables t)"
| "run be tables (GetAll c keys name) =
     (case run be tables c of
        Inl e \<Rightarrow> Inl e
      | Inr docs \<Rightarrow> if keys = Args [] then Inr [] else index_lookup be name keys docs)"
| "run be tables (Filter c p) =
     (case run be tables c of Inl e \<Rightarrow> Inl e | Inr docs \<Rightarrow> filter_docs be p docs)"
| "run be tables (Limit c n) =
     (case run be tables c of Inl e \<Rightarrow> Inl e | Inr docs \<Rightarrow> Inr (take (nat n) docs))"
| "run be tables (Skip c n) =
     (case run be tables c of Inl e \<Rightarrow> Inl e | Inr docs \<Rightarrow> Inr (drop (nat n) docs))"
| "run be tables (OrderBy c ord) =
     (case run be tables c of Inl e \<Rightarrow> Inl e | Inr docs \<Rightarrow> ordered be ord docs)"

text \<open>A backend for concrete runs: it refuses every operation that is left open above.\<close>

definition refusing_backend :: backend where
  "refusing_backend =
     \<lparr> bracket_sequence = (\<lambda>xs k. Inl LogicError),
       match_regex = (\<lambda>v re. Inl LogicError),
       compare_values = (\<lambda>op v w. Inl LogicError),
       contains_other = (\<lambda>v. Inl LogicError),
       index_lookup = (\<lambda>name keys docs. Inl LogicError),
       ordered = (\<lambda>ord docs. Inl LogicError) \<rparr>"

text \<open>
  Following a path through a document directly. The walk ends at a value; or it finds the
  field absent, when an object on the way lacks the next part or a null is reached before
  the path ends; or it runs into a number, a string or a boolean before the path ends; or it
  runs into an array.
\<close>

datatype walk = Value jsval | Absent | IntoScalar | IntoArray

fun walk_path :: "string list \<Rightarrow> jsval \<Rightarrow> walk" where
  "walk_path [] v = Value v"
| "walk_path (k # ks) (JObj entries) =
     (case map_of entries k of None \<Rightarrow> Absent | Some w \<Rightarrow> walk_path ks w)"
| "walk_path (k # ks) JNull = Absent"
| "walk_path (k # ks) (JArr xs) = IntoArray"
| "walk_path (k # ks) v = IntoScalar"

text \<open>The field of a document at a path: its value, or nothing when the document has no
  value there, for whichever reason.\<close>

definition field_at :: "string list \<Rightarrow> jsval \<Rightarrow> jsval option" where
  "field_at path doc = (case walk_path path doc of Value v \<Rightarrow> Some v | _ \<Rightarrow> None)"

text \<open>The path that \<open>dotPropRethinkKey\<close> follows for a key: its parts, the first one
  after the id swap.\<close>

definition native_path :: "string \<Rightarrow> string list" where
  "native_path key =
     swap_id_part (hd (split_on CHR ''.'' key)) # tl (split_on CHR ''.'' key)"

section \<open>Queries sent to the backend\<close>

text \<open>
  The queries that the plug hands to \<open>this._rethinkConn.run\<close>, in the order in which it
  sends them. The function of an index is one field accessor for a single key and an array
  of accessors otherwise.
\<close>

datatype index_function = SingleField reql | FieldArray "reql list"

datatype backend_call =
    TableListContains string
  | TableCreate string
  | TableWait string
  | IndexCreate string string index_function
  | IndexWait string string
  | ReplaceWithout string jsval string
  | Update string jsval jsobj

text \<open>\<open>try { body } catch (err) { handler }\<close> on results.\<close>

definition try_catch :: "('e + 'a) \<Rightarrow> ('e \<Rightarrow> 'e + 'a) \<Rightarrow> 'e + 'a" where
  "try_catch body handler = (case body of Inl err \<Rightarrow> handler err | Inr v \<Rightarrow> Inr v)"

section \<open>The index registry\<close>

text \<open>
  \<open>createIndex (collectionId, name, indexes)\<close>, with \<open>indexKeys\<close> the keys of
  \<open>indexes\<close> and with the backend's answers to the two queries as parameters. The index
  name is entered in the registry first; \<open>indexKeys.sort ()\<close> sorts the array in place;
  the \<open>indexCreate\<close> query runs inside \<open>try { } catch (err) { }\<close> with an empty
  handler; the \<open>indexWait\<close> query is awaited outside of it. The result is the registry,
  the queries sent and the outcome of the call.
\<close>

definition createIndex ::
  "index_registry \<Rightarrow> string \<Rightarrow> string \<Rightarrow> string list
     \<Rightarrow> backend_error + unit \<Rightarrow> backend_error + unit
     \<Rightarrow> index_registry \<times> backend_call list \<times> (backend_error + unit)"
where
  "createIndex indexes collectionId name indexKeys createResponse waitResponse =
     (let sortedKeys = sort indexKeys;
          indexName = join ''+'' sortedKeys;
          indexes' = (case indexes collectionId of
                        None \<Rightarrow> indexes(collectionId \<mapsto> {indexName})
                      | Some names \<Rightarrow> indexes(collectionId \<mapsto> insert indexName names));
          indexFunction =
            (if length sortedKeys = 1
             then SingleField (dotPropRethinkKey (sortedKeys ! 0) None)
             else FieldArray (map (\<lambda>indexKey. dotPropRethinkKey indexKey None)
                                  (sort sortedKeys)));
          create = IndexCreate collectionId indexName indexFunction;
          wait = IndexWait collectionId indexName
      in (case try_catch createResponse (\<lambda>err. Inr ()) of
            Inl err \<Rightarrow> (indexes', [create], Inl err)
          | Inr done \<Rightarrow> (indexes', [create, wait], waitResponse)))"

section \<open>Partial update\<close>

text \<open>The elements of a list in the order of their first occurrence, as
  \<open>Array.from (new Set (xs))\<close> lists them.\<close>

fun dedupe :: "'a list \<Rightarrow> 'a list" where
  "dedupe [] = []"
| "dedupe (x # xs) = x # dedupe (filter (\<lambda>y. y \<noteq> x) xs)"

text \<open>\<open>new Set (Array.from (updates).map (update => update.split ('.')[0]))\<close>\<close>

definition topLevelUpdates :: "string list \<Rightarrow> string list" where
  "topLevelUpdates updates = dedupe (map (\<lambda>update. hd (split_on CHR ''.'' update)) updates)"

text \<open>
  \<open>updateById (collectionId, id, newObject, updates)\<close> when no query fails. For every
  top-level key whose value in \<open>newObject\<close> is \<open>!= undefined\<close> the key is copied into
  \<open>replaceObject\<close>; for every other one a \<open>replace (R.row.without (key))\<close> query is
  sent. Then \<open>newObject\<close> itself is swapped, gets the id and is sent as the argument of
  \<open>update\<close>; \<open>replaceObject\<close> is not read again. The object is a map of own
  properties. The driver refuses to build the \<open>update\<close> term from an object with a
  property that holds \<open>undefined\<close>; that is behaviour of the library and is left out.
\<close>

record updateById_run =
  replaceObject :: jsobj
  queries :: "backend_call list"

definition updateById :: "string \<Rightarrow> jsval \<Rightarrow> jsobj \<Rightarrow> string list \<Rightarrow> updateById_run" where
  "updateById collectionId modelId newObject updates =
     (let keys = topLevelUpdates updates;
          copied = foldl (\<lambda>acc updatedKey.
                     if \<not> loosely_null (get_prop newObject updatedKey)
                     then acc(updatedKey \<mapsto> get_prop newObject updatedKey) else acc)
                   Map.empty keys;
          removals = map (ReplaceWithout collectionId modelId)
                       (filter (\<lambda>updatedKey. loosely_null (get_prop newObject updatedKey)) keys);
          swappedReplaceObject = (swapKeys ''id'' ''_id'' newObject)(''id'' \<mapsto> modelId)
      in \<lparr> replaceObject = copied,
           queries = removals @ [Update collectionId modelId swappedReplaceObject] \<rparr>)"

section \<open>Collection readiness\<close>

text \<open>
  \<open>initCollection (collectionId)\<close> is an async function: it runs up to an \<open>await\<close>,
  returns to its caller, and is resumed later from the job queue, in the order in which the
  calls were suspended. The state of the plug between two such pieces:
  \<open>prepared\<close> is \<open>this._preparedTables\<close> (each future by its number), \<open>suspended\<close>
  the calls that wait at \<open>await this._building\<close>, \<open>sent\<close> the queries sent so far.
\<close>

record plug =
  prepared :: "string \<rightharpoonup> nat"
  outcome :: "nat \<rightharpoonup> settled"
  futures_made :: nat
  suspended :: "string list"
  sent :: "backend_call list"

definition new_plug :: plug where
  "new_plug = \<lparr> prepared = Map.empty, outcome = Map.empty, futures_made = 0,
               suspended = [], sent = [] \<rparr>"

text \<open>The call itself: return at once when the collection has an entry, otherwise
  suspend at \<open>await this._building\<close>.\<close>

definition initCollection_call :: "plug \<Rightarrow> string \<Rightarrow> plug" where
  "initCollection_call p collectionId =
     (if collectionId \<in> dom (prepared p) then p
      else p\<lparr> suspended := suspended p @ [collectionId] \<rparr>)"

text \<open>
  Resuming the oldest suspended call: the creating function is called, which sends the
  \<open>tableList ().contains\<close> query and suspends; its future is stored under the
  collection id, replacing any entry that is there, and the call returns.
\<close>

definition initCollection_resume :: "plug \<Rightarrow> plug" where
  "initCollection_resume p =
     (case suspended p of
        [] \<Rightarrow> p
      | collectionId # rest \<Rightarrow>
          p\<lparr> suspended := rest,
             prepared := (prepared p)(collectionId \<mapsto> futures_made p),
             futures_made := Suc (futures_made p),
             sent := sent p @ [TableListContains collectionId] \<rparr>)"

text \<open>The creating function of future \<open>n\<close>, resumed with the backend's answer to each
  of its three queries in turn.\<close>

definition on_tableList :: "plug \<Rightarrow> nat \<Rightarrow> string \<Rightarrow> backend_error + bool \<Rightarrow> plug" where
  "on_tableList p n collectionId response =
     (case response of
        Inl err \<Rightarrow> p\<lparr> outcome := (outcome p)(n \<mapsto> Rejected err) \<rparr>
      | Inr tableExists \<Rightarrow>
          (if \<not> tableExists then p\<lparr> sent := sent p @ [TableCreate collectionId] \<rparr>
           else p\<lparr> sent := sent p @ [TableWait collectionId] \<rparr>))"

definition on_tableCreate :: "plug \<Rightarrow> nat \<Rightarrow> string \<Rightarrow> backend_error + unit \<Rightarrow> plug" where
  "on_tableCreate p n collectionId response =
     (case response of
        Inl err \<Rightarrow> p\<lparr> outcome := (outcome p)(n \<mapsto> Rejected err) \<rparr>
      | Inr done \<Rightarrow> p\<lparr> sent := sent p @ [TableWait collectionId] \<rparr>)"

definition on_tableWait :: "plug \<Rightarrow> nat \<Rightarrow> string \<Rightarrow> backend_error + unit \<Rightarrow> plug" where
  "on_tableWait p n collectionId response =
     (case response of
        Inl err \<Rightarrow> p\<lparr> outcome := (outcome p)(n \<mapsto> Rejected err) \<rparr>
      | Inr done \<Rightarrow> p\<lparr> outcome := (outcome p)(n \<mapsto> Resolved) \<rparr>)"

text \<open>What \<open>_getTable\<close> finds when it awaits the entry of a collection.\<close>

definition readiness :: "plug \<Rightarrow> string \<rightharpoonup> settled" where
  "readiness p collectionId =
     (case prepared p collectionId of None \<Rightarrow> None | Some n \<Rightarrow> outcome p n)"

text \<open>The number of \<open>tableCreate\<close> queries sent for a collection.\<close>

definition creation_attempts :: "plug \<Rightarrow> string \<Rightarrow> nat" where
  "creation_attempts p collectionId = length (filter (\<lambda>q. q = TableCreate collectionId) (sent p))"

section \<open>Auxiliary notions for the statements\<close>

text \<open>The kinds of operation that a query descriptor is specified to carry.\<close>

definition supported_kinds :: "string list" where
  "supported_kinds =
     [''filter'', ''whereEquals'', ''elem'', ''ne'', ''nin'', ''in'', ''whereOr'', ''whereAnd'',
      ''gt'', ''gte'', ''lt'', ''lte'', ''sort'', ''limit'', ''skip'']"

text \<open>A cursor whose last step is an index lookup.\<close>

fun is_index_lookup :: "cursor \<Rightarrow> bool" where
  "is_index_lookup (GetAll c keys name) = True"
| "is_index_lookup c = False"

section \<open>Properties of the codec\<close>

text \<open>
  C10. When \<open>id\<close> is bound to null, the swap leaves no \<open>_id\<close> in the result, and
  \<open>id\<close> holds what \<open>_id\<close> held (nothing when that was null or missing): the null is
  in the result under neither name. Symmetrically for a null \<open>_id\<close>. The documents that
  \<open>insert\<close>, \<open>replaceById\<close> and \<open>updateById\<close> hand to the backend and the object
  that decoding returns are built from this swap, so they lack the field as well.
\<close>

theorem swapKeys_drops_null:
  "(obj ''id'' = Some JNull \<longrightarrow>
      swapKeys ''id'' ''_id'' obj ''_id'' = None
      \<and> swapKeys ''id'' ''_id'' obj ''id'' =
          (if loosely_null (own_or_null obj ''_id'') then None else obj ''_id'')
      \<and> insert_doc obj ''_id'' = None
      \<and> replaceById_doc rid obj ''_id'' = None
      \<and> last (queries (updateById cid rid obj updates)) = Update cid rid (replaceById_doc rid obj)
      \<and> map_option record_id (handleRawModel (Some obj)) = Some JUndefined)
   \<and> (obj ''_id'' = Some JNull \<longrightarrow>
      swapKeys ''id'' ''_id'' obj ''id'' = None
      \<and> swapKeys ''id'' ''_id'' obj ''_id'' =
          (if loosely_null (own_or_null obj ''id'') then None else obj ''id'')
      \<and> insert_doc obj ''id'' = None
      \<and> map_option (\<lambda>r. object r ''id'') (handleRawModel (Some obj)) = Some None)"
proof (intro conjI impI)
  assume n: "obj ''id'' = Some JNull"
  then show "swapKeys ''id'' ''_id'' obj ''_id'' = None"
    by (simp add: swapKeys_def Let_def own_or_null_def loosely_null_def)
  from n show "swapKeys ''id'' ''_id'' obj ''id'' =
          (if loosely_null (own_or_null obj ''_id'') then None else obj ''_id'')"
    by (auto simp: swapKeys_def Let_def own_or_null_def loosely_null_def split: option.splits)
  from n show "insert_doc obj ''_id'' = None"
    by (simp add: insert_doc_def swapKeys_def Let_def own_or_null_def loosely_null_def)
  from n show "replaceById_doc rid obj ''_id'' = None"
    by (simp add: replaceById_doc_def swapKeys_def Let_def own_or_null_def loosely_null_def)
  show "last (queries (updateById cid rid obj updates)) = Update cid rid (replaceById_doc rid obj)"
    by (simp add: updateById_def replaceById_doc_def Let_def)
  from n show "map_option record_id (handleRawModel (Some obj)) = Some JUndefined"
    by (simp add: handleRawModel_def swapKeys_def Let_def own_or_null_def loosely_null_def
          get_prop_def)
next
  assume n: "obj ''_id'' = Some JNull"
  then show "swapKeys ''id'' ''_id'' obj ''id'' = None"
    by (simp add: swapKeys_def Let_def own_or_null_def loosely_null_def)
  from n show "swapKeys ''id'' ''_id'' obj ''_id'' =
          (if loosely_null (own_or_null obj ''id'') then None else obj ''id'')"
    by (auto simp: swapKeys_def Let_def own_or_null_def loosely_null_def split: option.splits)
  from n show "insert_doc obj ''id'' = None"
    by (simp add: insert_doc_def swapKeys_def Let_def own_or_null_def loosely_null_def)
  from n show "map_option (\<lambda>r. object r ''id'') (handleRawModel (Some obj)) = Some None"
    by (simp add: handleRawModel_def swapKeys_def Let_def own_or_null_def loosely_null_def)
qed

theorem swapKeys_drops_null_witness:
  "swapKeys ''id'' ''_id'' [''id'' \<mapsto> JNull, ''a'' \<mapsto> JNum 1] ''_id'' = None
   \<and> swapKeys ''id'' ''_id'' [''id'' \<mapsto> JNull, ''a'' \<mapsto> JNum 1] ''id'' = None
   \<and> swapKeys ''id'' ''_id'' [''_id'' \<mapsto> JNull, ''a'' \<mapsto> JNum 1] ''id'' = None
   \<and> swapKeys ''id'' ''_id'' [''_id'' \<mapsto> JNull, ''a'' \<mapsto> JNum 1] ''_id'' = None"
  using swapKeys_drops_null [of "[''id'' \<mapsto> JNull, ''a'' \<mapsto> JNum 1]"]
        swapKeys_drops_null [of "[''_id'' \<mapsto> JNull, ''a'' \<mapsto> JNum 1]"]
  by (simp add: own_or_null_def loosely_null_def)

lemma swapKeys_roundtrip_object:
  assumes "obj ''_id'' = None" "obj ''id'' \<noteq> Some JNull" "obj ''id'' \<noteq> Some JUndefined"
    and "\<not> loosely_null rid"
  shows "(swapKeys ''id'' ''_id'' (replaceById_doc rid obj))(''_id'' := None) = obj"
proof (rule ext)
  fix k
  show "((swapKeys ''id'' ''_id'' (replaceById_doc rid obj))(''_id'' := None)) k = obj k"
    using assms
    by (cases "obj ''id''")
       (auto simp: swapKeys_def replaceById_doc_def Let_def own_or_null_def loosely_null_def)
qed

lemma swapKeys_roundtrip_id:
  assumes "\<not> loosely_null rid"
  shows "get_prop (swapKeys ''id'' ''_id'' (replaceById_doc rid obj)) ''_id'' = rid"
  using assms
  by (simp add: swapKeys_def replaceById_doc_def Let_def own_or_null_def get_prop_def)

text \<open>
  C2, as stated, fails: an object that binds \<open>id\<close> to null (and has no \<open>_id\<close>) comes
  back without its \<open>id\<close> property.
\<close>

theorem roundtrip_null_id_counterexample:
  "[''id'' \<mapsto> JNull] ''_id'' = None
   \<and> handleRawModel (Some (replaceById_doc (JStr ''r1'') [''id'' \<mapsto> JNull]))
       = Some \<lparr> record_id = JStr ''r1'', object = Map.empty \<rparr>
   \<and> handleRawModel (Some (replaceById_doc (JStr ''r1'') [''id'' \<mapsto> JNull]))
       \<noteq> Some \<lparr> record_id = JStr ''r1'', object = [''id'' \<mapsto> JNull] \<rparr>"
proof -
  have obj: "(swapKeys ''id'' ''_id'' (replaceById_doc (JStr ''r1'') [''id'' \<mapsto> JNull]))
               (''_id'' := None) = Map.empty"
    by (rule ext)
       (simp add: swapKeys_def replaceById_doc_def Let_def own_or_null_def loosely_null_def)
  have rid: "get_prop (swapKeys ''id'' ''_id'' (replaceById_doc (JStr ''r1'') [''id'' \<mapsto> JNull]))
               ''_id'' = JStr ''r1''"
    by (simp add: swapKeys_roundtrip_id loosely_null_def)
  have res: "handleRawModel (Some (replaceById_doc (JStr ''r1'') [''id'' \<mapsto> JNull]))
       = Some \<lparr> record_id = JStr ''r1'', object = Map.empty \<rparr>"
    using obj rid by (simp add: handleRawModel_def Let_def)
  have "[''id'' \<mapsto> JNull] \<noteq> (Map.empty :: jsobj)"
    by (rule map_upd_nonempty)
  then have "(Map.empty :: jsobj) \<noteq> [''id'' \<mapsto> JNull]"
    by (rule not_sym)
  with res show ?thesis by simp
qed

text \<open>
  C2, amended. For every record whose id is not null or undefined and whose object has no
  \<open>_id\<close> property and does not bind \<open>id\<close> to null or undefined, decoding the
  document built by \<open>replaceById\<close> gives the record back.
\<close>

theorem decode_encode_roundtrip:
  assumes "obj ''_id'' = None" "obj ''id'' \<noteq> Some JNull" "obj ''id'' \<noteq> Some JUndefined"
    and "\<not> loosely_null rid"
  shows "handleRawModel (Some (replaceById_doc rid obj))
           = Some \<lparr> record_id = rid, object = obj \<rparr>"
  using swapKeys_roundtrip_object [OF assms] swapKeys_roundtrip_id [OF assms(4)]
  by (simp add: handleRawModel_def Let_def)

theorem decode_encode_roundtrip_witness:
  "handleRawModel (Some (replaceById_doc (JStr ''r1'') [''id'' \<mapsto> JNum 7, ''name'' \<mapsto> JStr ''x'']))
     = Some \<lparr> record_id = JStr ''r1'', object = [''id'' \<mapsto> JNum 7, ''name'' \<mapsto> JStr ''x''] \<rparr>"
  using decode_encode_roundtrip [of "[''id'' \<mapsto> JNum 7, ''name'' \<mapsto> JStr ''x'']" "JStr ''r1''"]
  by (simp add: loosely_null_def)

section \<open>Properties of the deep matcher\<close>

lemma eval_brackets_error:
  "eval be row el t = Inl e \<Longrightarrow> eval be row el (foldl Bracket t ks) = Inl e"
  by (induction ks arbitrary: t) simp_all

lemma eval_brackets_walk:
  "eval be row el t = Inr v \<Longrightarrow>
     (walk_path ks v = Absent \<longrightarrow> eval be row el (foldl Bracket t ks) = Inl NonExistence)
     \<and> (\<forall>w. walk_path ks v = Value w \<longrightarrow> eval be row el (foldl Bracket t ks) = Inr w)
     \<and> (walk_path ks v = IntoScalar \<longrightarrow> eval be row el (foldl Bracket t ks) = Inl LogicError)"
proof (induction ks arbitrary: t v)
  case Nil
  then show ?case by simp
next
  case (Cons k ks)
  show ?case
  proof (cases v)
    case (JObj entries)
    show ?thesis
    proof (cases "map_of entries k")
      case None
      with JObj Cons.prems have "eval be row el (Bracket t k) = Inl NonExistence"
        by (simp add: bracket_def)
      then have "eval be row el (foldl Bracket t (k # ks)) = Inl NonExistence"
        by (simp add: eval_brackets_error)
      with JObj None show ?thesis by simp
    next
      case (Some u)
      with JObj Cons.prems have "eval be row el (Bracket t k) = Inr u"
        by (simp add: bracket_def)
      from Cons.IH [OF this] JObj Some show ?thesis by simp
    qed
  next
    case JNull
    with Cons.prems have "eval be row el (Bracket t k) = Inl NonExistence"
      by (simp add: bracket_def)
    then have "eval be row el (foldl Bracket t (k # ks)) = Inl NonExistence"
      by (simp add: eval_brackets_error)
    with JNull show ?thesis by simp
  next
    case (JArr xs)
    then show ?thesis by simp
  next
    case JUndefined
    with Cons.prems have "eval be row el (Bracket t k) = Inl LogicError"
      by (simp add: bracket_def)
    then have "eval be row el (foldl Bracket t (k # ks)) = Inl LogicError"
      by (simp add: eval_brackets_error)
    with JUndefined show ?thesis by simp
  next
    case (JBool b)
    with Cons.prems have "eval be row el (Bracket t k) = Inl LogicError"
      by (simp add: bracket_def)
    then have "eval be row el (foldl Bracket t (k # ks)) = Inl LogicError"
      by (simp add: eval_brackets_error)
    with JBool show ?thesis by simp
  next
    case (JNum n)
    with Cons.prems have "eval be row el (Bracket t k) = Inl LogicError"
      by (simp add: bracket_def)
    then have "eval be row el (foldl Bracket t (k # ks)) = Inl LogicError"
      by (simp add: eval_brackets_error)
    with JNum show ?thesis by simp
  next
    case (JStr s)
    with Cons.prems have "eval be row el (Bracket t k) = Inl LogicError"
      by (simp add: bracket_def)
    then have "eval be row el (foldl Bracket t (k # ks)) = Inl LogicError"
      by (simp add: eval_brackets_error)
    with JStr show ?thesis by simp
  qed
qed

lemma dotPropRethinkKey_path:
  "dotPropRethinkKey key None = foldl Bracket Row (native_path key)"
  by (simp add: dotPropRethinkKey_def native_path_def Let_def)

lemma eval_key_absent:
  "walk_path (native_path key) doc = Absent
     \<Longrightarrow> eval be doc el (dotPropRethinkKey key None) = Inl NonExistence"
  using eval_brackets_walk [of be doc el Row doc "native_path key"]
  by (simp add: dotPropRethinkKey_path)

lemma eval_key_value:
  "walk_path (native_path key) doc = Value w
     \<Longrightarrow> eval be doc el (dotPropRethinkKey key None) = Inr w"
  using eval_brackets_walk [of be doc el Row doc "native_path key"]
  by (simp add: dotPropRethinkKey_path)

lemma eval_key_scalar:
  "walk_path (native_path key) doc = IntoScalar
     \<Longrightarrow> eval be doc el (dotPropRethinkKey key None) = Inl LogicError"
  using eval_brackets_walk [of be doc el Row doc "native_path key"]
  by (simp add: dotPropRethinkKey_path)

lemma deepMatch_single:
  "deepMatch [(key, Lit v)] None = Eq (Default (dotPropRethinkKey key None) JNull) v"
  by (simp add: deepMatch_def deepMatch_part_def)

lemma split_on_absent: "c \<notin> set xs \<Longrightarrow> split_on c xs = [xs]"
  by (induction xs) auto

lemma native_path_plain: "CHR ''.'' \<notin> set key \<Longrightarrow> native_path key = [swap_id_part key]"
  by (simp add: native_path_def split_on_absent)

lemma keeps_null_absent:
  "walk_path (native_path x) doc = Absent
     \<Longrightarrow> filter_keeps be (deepMatch [(x, Lit JNull)] None) doc = Inr True"
  by (simp add: filter_keeps_def deepMatch_single eval_key_absent truthy_def)

lemma keeps_null_value:
  "walk_path (native_path x) doc = Value w
     \<Longrightarrow> filter_keeps be (deepMatch [(x, Lit JNull)] None) doc = Inr (w = JNull)"
  by (auto simp add: filter_keeps_def deepMatch_single eval_key_value truthy_def)

lemma keeps_null_scalar:
  "walk_path (native_path x) doc = IntoScalar
     \<Longrightarrow> filter_keeps be (deepMatch [(x, Lit JNull)] None) doc = Inl LogicError"
  by (simp add: filter_keeps_def deepMatch_single eval_key_scalar)

lemma walk_path_plain:
  "CHR ''.'' \<notin> set x \<Longrightarrow>
     walk_path (native_path x) (JObj d) =
       (case map_of d (swap_id_part x) of None \<Rightarrow> Absent | Some w \<Rightarrow> Value w)"
  by (simp add: native_path_plain split: option.splits)

text \<open>
  C7, as stated, fails: the document \<open>{a: 5}\<close> has no field \<open>a.b\<close>, and on it the
  filter \<open>{'a.b': null}\<close> raises an error instead of matching.
\<close>

theorem null_filter_error_on_scalar_path_counterexample:
  "field_at (native_path ''a.b'') (JObj [(''a'', JNum 5)]) = None
   \<and> filter_keeps refusing_backend (deepMatch [(''a.b'', Lit JNull)] None) (JObj [(''a'', JNum 5)])
       = Inl LogicError"
proof -
  have path: "native_path ''a.b'' = [''a'', ''b'']"
    by (simp add: native_path_def swap_id_part_def)
  have w: "walk_path (native_path ''a.b'') (JObj [(''a'', JNum 5)]) = IntoScalar"
    by (simp add: path)
  from w keeps_null_scalar [OF w] show ?thesis
    by (simp add: field_at_def)
qed

text \<open>
  C7, amended. A match map \<open>{x: null}\<close> compiles to an equality test on the accessor of
  \<open>x\<close> with \<open>default (null)\<close>. On every document the filter keeps the document, without
  an error, when the field is absent (an object on the path lacks the next part, or a null
  is reached) and when it is null, and drops it when the field holds any other value; for a
  key without a dot these are all the cases, the field being the property named by the key
  (after the swap of \<open>id\<close> and \<open>_id\<close>). When the path of a dotted key runs into a
  number, a string or a boolean, the filter raises the backend's error.
\<close>

theorem null_filter_matches_missing_and_null:
  "deepMatch [(x, Lit JNull)] None = Eq (Default (dotPropRethinkKey x None) JNull) JNull
   \<and> (walk_path (native_path x) (JObj d) = Absent
        \<longrightarrow> filter_keeps be (deepMatch [(x, Lit JNull)] None) (JObj d) = Inr True)
   \<and> (walk_path (native_path x) (JObj d) = Value JNull
        \<longrightarrow> filter_keeps be (deepMatch [(x, Lit JNull)] None) (JObj d) = Inr True)
   \<and> (\<forall>w. w \<noteq> JNull \<and> walk_path (native_path x) (JObj d) = Value w
        \<longrightarrow> filter_keeps be (deepMatch [(x, Lit JNull)] None) (JObj d) = Inr False)
   \<and> (walk_path (native_path x) (JObj d) = IntoScalar
        \<longrightarrow> filter_keeps be (deepMatch [(x, Lit JNull)] None) (JObj d) = Inl LogicError)
   \<and> (CHR ''.'' \<notin> set x \<longrightarrow>
        walk_path (native_path x) (JObj d) =
          (case map_of d (swap_id_part x) of None \<Rightarrow> Absent | Some w \<Rightarrow> Value w))"
proof (intro conjI allI impI)
  show "deepMatch [(x, Lit JNull)] None = Eq (Default (dotPropRethinkKey x None) JNull) JNull"
    by (rule deepMatch_single)
qed (simp_all add: keeps_null_absent keeps_null_value keeps_null_scalar walk_path_plain)

theorem null_filter_matches_missing_and_null_witness:
  "filter_keeps refusing_backend (deepMatch [(''x'', Lit JNull)] None) (JObj [(''y'', JNum 1)]) = Inr True
   \<and> filter_keeps refusing_backend (deepMatch [(''x'', Lit JNull)] None) (JObj [(''x'', JNull)]) = Inr True
   \<and> filter_keeps refusing_backend (deepMatch [(''x'', Lit JNull)] None) (JObj [(''x'', JNum 1)]) = Inr False
   \<and> filter_keeps refusing_backend (deepMatch [(''x.y'', Lit JNull)] None) (JObj [(''x'', JNum 1)])
       = Inl LogicError"
proof -
  have path: "native_path ''x'' = [''x'']"
    by (simp add: native_path_def swap_id_part_def)
  have path2: "native_path ''x.y'' = [''x'', ''y'']"
    by (simp add: native_path_def swap_id_part_def)
  have absent: "filter_keeps refusing_backend (deepMatch [(''x'', Lit JNull)] None)
      (JObj [(''y'', JNum 1)]) = Inr True"
    using null_filter_matches_missing_and_null
      [of "''x''" "[(''y'', JNum 1)]" refusing_backend, THEN conjunct2, THEN conjunct1]
    by (simp add: path)
  have null: "filter_keeps refusing_backend (deepMatch [(''x'', Lit JNull)] None)
      (JObj [(''x'', JNull)]) = Inr True"
    using null_filter_matches_missing_and_null
      [of "''x''" "[(''x'', JNull)]" refusing_backend, THEN conjunct2, THEN conjunct2, THEN conjunct1]
    by (simp add: path)
  have other: "filter_keeps refusing_backend (deepMatch [(''x'', Lit JNull)] None)
      (JObj [(''x'', JNum 1)]) = Inr False"
    using null_filter_matches_missing_and_null
      [of "''x''" "[(''x'', JNum 1)]" refusing_backend,
       THEN conjunct2, THEN conjunct2, THEN conjunct2, THEN conjunct1]
    by (simp add: path)
  have scalar: "filter_keeps refusing_backend (deepMatch [(''x.y'', Lit JNull)] None)
      (JObj [(''x'', JNum 1)]) = Inl LogicError"
    using null_filter_matches_missing_and_null
      [of "''x.y''" "[(''x'', JNum 1)]" refusing_backend,
       THEN conjunct2, THEN conjunct2, THEN conjunct2, THEN conjunct2, THEN conjunct1]
    by (simp add: path2)
  from absent null other scalar show ?thesis by simp
qed

section \<open>Properties of the translation engine\<close>

lemma loop_from_append:
  "loop_from lc indexes cid state (pts @ rest) =
     (case loop_from lc indexes cid state pts of
        Inl err \<Rightarrow> Inl err
      | Inr state' \<Rightarrow> loop_from lc indexes cid state' rest)"
  by (induction pts arbitrary: state) (simp_all split: sum.splits)

lemma loop_snoc:
  "queryToCursor_loop lc indexes cid (pts @ [pt]) =
     (case queryToCursor_loop lc indexes cid pts of
        Inl err \<Rightarrow> Inl err
      | Inr state \<Rightarrow> queryPt_step lc indexes cid state pt)"
  by (simp add: queryToCursor_loop_def loop_from_append split: sum.splits)

lemma step_flag: "queryPt_step lc indexes cid state pt = Inr state' \<Longrightarrow> snd state' = False"
  by (auto simp: queryPt_step_def split: sum.splits)

lemma loop_flag:
  "queryToCursor_loop lc indexes cid pts = Inr state \<Longrightarrow> snd state = (pts = [])"
proof (induction pts arbitrary: state rule: rev_induct)
  case Nil
  then show ?case by (auto simp: queryToCursor_loop_def)
next
  case (snoc pt pts)
  then show ?case
    by (auto simp: loop_snoc split: sum.splits dest: step_flag)
qed

lemma loop_take_Suc:
  assumes "i < length pts"
  shows "queryToCursor_loop lc indexes cid (take (Suc i) pts) =
     (case queryToCursor_loop lc indexes cid (take i pts) of
        Inl err \<Rightarrow> Inl err
      | Inr state \<Rightarrow> queryPt_step lc indexes cid state (pts ! i))"
  using assms by (simp add: take_Suc_conv_app_nth loop_snoc)

text \<open>
  C1, as stated, fails: after a \<open>whereOr\<close> part with no alternatives the cursor is still
  the raw table and the index \<open>a\<close> is registered, yet the filter on \<open>a\<close> that follows
  is translated into a full-scan predicate.
\<close>

theorem filter_after_untouched_cursor_counterexample:
  "queryToCursor_loop caseless_localeCompare [''t'' \<mapsto> {''a''}] ''t'' [Pt_whereOr []]
     = Inr (Table ''t'', False)
   \<and> has_index [''t'' \<mapsto> {''a''}] ''t'' (rethinkIndexName (map fst [(''a'', Lit (JNum 1))]))
   \<and> queryToCursor caseless_localeCompare [''t'' \<mapsto> {''a''}] Map.empty ''t''
        [Pt_whereOr [], Pt_filter [(''a'', Lit (JNum 1))]]
       = Inr (Filter (Table ''t'') (deepMatch [(''a'', Lit (JNum 1))] None))
   \<and> \<not> is_index_lookup (Filter (Table ''t'') (deepMatch [(''a'', Lit (JNum 1))] None))"
  by code_simp

text \<open>
  C1, amended. For the filter at position \<open>i\<close> of a descriptor: when the parts before it
  translate to the cursor \<open>before\<close>, the step is an index lookup (a \<open>getAll\<close> on
  \<open>before\<close>, scoped to the index named by the sorted keys joined with \<open>+\<close>) if and
  only if \<open>i = 0\<close> and that name is in the registry of the collection; in every other case
  it is a filter with the predicate that \<open>deepMatch\<close> compiles. When a part before it
  throws, the translation has ended there with that error.
\<close>

theorem filter_index_iff_first_part:
  assumes "i < length pts" and "pts ! i = Pt_filter f"
  shows "case queryToCursor_loop lc indexes cid (take i pts) of
           Inl err \<Rightarrow> queryToCursor_loop lc indexes cid (take (Suc i) pts) = Inl err
         | Inr (before, cursorIsTable) \<Rightarrow>
             (let name = rethinkIndexName (map fst f)
              in \<exists>after. queryToCursor_loop lc indexes cid (take (Suc i) pts) = Inr (after, False)
                  \<and> (is_index_lookup after \<longleftrightarrow> i = 0 \<and> has_index indexes cid name)
                  \<and> (i = 0 \<and> has_index indexes cid name \<longrightarrow>
                        (\<exists>keys. after = GetAll before keys name))
                  \<and> (\<not> (i = 0 \<and> has_index indexes cid name) \<longrightarrow>
                        after = Filter before (deepMatch f None)))"
proof (cases "queryToCursor_loop lc indexes cid (take i pts)")
  case (Inl err)
  then show ?thesis by (simp add: loop_take_Suc [OF assms(1)])
next
  case (Inr state)
  obtain before flag where state: "state = (before, flag)" by (cases state)
  have flag: "flag = (i = 0)"
    using loop_flag [OF Inr] assms(1) state by auto
  show ?thesis
    using Inr state flag assms(2)
    by (simp add: loop_take_Suc [OF assms(1)] queryPt_step_def Let_def)
qed

theorem filter_index_iff_first_part_witness:
  "queryToCursor_loop caseless_localeCompare [''t'' \<mapsto> {''a''}] ''t''
       (take (Suc 0) [Pt_filter [(''a'', Lit (JNum 1))], Pt_filter [(''a'', Lit (JNum 1))]])
     = Inr (GetAll (Table ''t'') (OneKey (Lit (JNum 1))) ''a'', False)
   \<and> queryToCursor_loop caseless_localeCompare [''t'' \<mapsto> {''a''}] ''t''
       (take (Suc 1) [Pt_filter [(''a'', Lit (JNum 1))], Pt_filter [(''a'', Lit (JNum 1))]])
     = Inr (Filter (GetAll (Table ''t'') (OneKey (Lit (JNum 1))) ''a'')
              (deepMatch [(''a'', Lit (JNum 1))] None), False)"
proof -
  let ?pts = "[Pt_filter [(''a'', Lit (JNum 1))], Pt_filter [(''a'', Lit (JNum 1))]]"
  let ?idx = "[''t'' \<mapsto> {''a''}]"
  have idx: "has_index ?idx ''t'' (rethinkIndexName (map fst [(''a'', Lit (JNum 1))]))"
    by code_simp
  have p0: "queryToCursor_loop caseless_localeCompare ?idx ''t'' (take 0 ?pts) = Inr (Table ''t'', True)"
    by (simp add: queryToCursor_loop_def)
  from filter_index_iff_first_part [where i = 0 and f = "[(''a'', Lit (JNum 1))]"
        and pts = ?pts and lc = caseless_localeCompare and indexes = ?idx and cid = "''t''"]
    p0 idx
  obtain keys where first: "queryToCursor_loop caseless_localeCompare ?idx ''t'' (take (Suc 0) ?pts)
      = Inr (GetAll (Table ''t'') keys (rethinkIndexName (map fst [(''a'', Lit (JNum 1))])), False)"
    by (auto simp: Let_def)
  have first': "queryToCursor_loop caseless_localeCompare ?idx ''t'' (take (Suc 0) ?pts)
      = Inr (GetAll (Table ''t'') (OneKey (Lit (JNum 1))) ''a'', False)"
    by code_simp
  from filter_index_iff_first_part [where i = 1 and f = "[(''a'', Lit (JNum 1))]"
        and pts = ?pts and lc = caseless_localeCompare and indexes = ?idx and cid = "''t''"]
    first'
  have "queryToCursor_loop caseless_localeCompare ?idx ''t'' (take (Suc 1) ?pts)
     = Inr (Filter (GetAll (Table ''t'') (OneKey (Lit (JNum 1))) ''a'')
              (deepMatch [(''a'', Lit (JNum 1))] None), False)"
    by (auto simp: Let_def)
  with first' show ?thesis by simp
qed


text \<open>
  C3. After \<open>createIndex\<close> on the keys \<open>a\<close> and \<open>B\<close> the registry holds the name
  \<open>B+a\<close> and the index is built on the fields \<open>[B, a]\<close> (code-unit order). Under a
  collation that places \<open>a\<close> before \<open>B\<close>, the filter \<open>{B: vB, a: va}\<close> is served by
  that index and the values handed to \<open>getAll\<close> are \<open>[va, vB]\<close>: the first value belongs
  to the second key of the index name.
\<close>

theorem filter_values_against_index_order:
  assumes "0 < lc ''B'' ''a''"
  shows "fst (createIndex Map.empty cid name [''a'', ''B''] createResponse waitResponse)
           = [cid \<mapsto> {''B+a''}]
     \<and> hd (fst (snd (createIndex Map.empty cid name [''a'', ''B''] createResponse waitResponse)))
           = IndexCreate cid ''B+a'' (FieldArray [Bracket Row ''B'', Bracket Row ''a''])
     \<and> rethinkIndexName (map fst [(''B'', vB), (''a'', va)]) = ''B+a''
     \<and> queryToCursor lc
           (fst (createIndex Map.empty cid name [''a'', ''B''] createResponse waitResponse))
           Map.empty cid [Pt_filter [(''B'', vB), (''a'', va)]]
         = Inr (GetAll (Table cid) (KeyArray [va, vB]) ''B+a'')"
proof -
  have srt: "sort [''B'', ''a''] = [''B'', ''a'']" by code_simp
  have srt': "sort [''a'', ''B''] = [''B'', ''a'']" by code_simp
  have name: "rethinkIndexName [''B'', ''a''] = ''B+a''"
    using srt by (simp add: rethinkIndexName_def)
  have vals: "filter_values lc [(''B'', vB), (''a'', va)] = [va, vB]"
    using assms by (simp add: filter_values_def sort_by_def)
  have reg: "fst (createIndex Map.empty cid name [''a'', ''B''] createResponse waitResponse)
           = [cid \<mapsto> {''B+a''}]"
    using srt' by (cases createResponse) (simp_all add: createIndex_def try_catch_def Let_def)
  have fn: "hd (fst (snd (createIndex Map.empty cid name [''a'', ''B''] createResponse waitResponse)))
           = IndexCreate cid ''B+a'' (FieldArray [Bracket Row ''B'', Bracket Row ''a''])"
    using srt srt'
    by (cases createResponse)
       (simp_all add: createIndex_def try_catch_def Let_def dotPropRethinkKey_def swap_id_part_def)
  have q: "queryToCursor lc [cid \<mapsto> {''B+a''}] Map.empty cid [Pt_filter [(''B'', vB), (''a'', va)]]
         = Inr (GetAll (Table cid) (KeyArray [va, vB]) ''B+a'')"
    using name vals
    by (simp add: queryToCursor_def getTable_def queryPt_step_def has_index_def)
  show ?thesis
    using reg fn name q by simp
qed

theorem filter_values_against_index_order_witness:
  "0 < caseless_localeCompare ''B'' ''a''
   \<and> rethinkIndexName (map fst [(''B'', Lit (JNum 1)), (''a'', Lit (JNum 2))]) = ''B+a''
   \<and> queryToCursor caseless_localeCompare
        (fst (createIndex Map.empty ''t'' ''byAB'' [''a'', ''B''] (Inr ()) (Inr ())))
        Map.empty ''t'' [Pt_filter [(''B'', Lit (JNum 1)), (''a'', Lit (JNum 2))]]
         = Inr (GetAll (Table ''t'') (KeyArray [Lit (JNum 2), Lit (JNum 1)]) ''B+a'')"
proof -
  have h: "0 < caseless_localeCompare ''B'' ''a''" by code_simp
  note run = filter_values_against_index_order
            [where lc = caseless_localeCompare and vB = "Lit (JNum 1)" and va = "Lit (JNum 2)"
               and cid = "''t''" and name = "''byAB''" and createResponse = "Inr ()"
               and waitResponse = "Inr ()", OF h]
  from h run [THEN conjunct2, THEN conjunct2, THEN conjunct1]
    run [THEN conjunct2, THEN conjunct2, THEN conjunct2]
  show ?thesis by (intro conjI)
qed

text \<open>
  C6, as stated, fails: a descriptor with a part tagged \<open>between\<close> translates without an
  error, to the same cursor as the descriptor without that part.
\<close>

theorem unsupported_part_counterexample:
  "''between'' \<notin> set supported_kinds
   \<and> type_tag (Pt_other ''between'') = ''between''
   \<and> queryToCursor caseless_localeCompare Map.empty Map.empty ''t'' [Pt_other ''between'', Pt_limit 5]
       = Inr (Limit (Table ''t'') 5)
   \<and> queryToCursor caseless_localeCompare Map.empty Map.empty ''t'' [Pt_limit 5]
       = Inr (Limit (Table ''t'') 5)"
  by (simp add: queryToCursor_def getTable_def queryPt_step_def supported_kinds_def)

text \<open>
  C6, amended. A part whose type tag is not one of the supported kinds does not make the
  translation fail: its iteration leaves the cursor unchanged and clears
  \<open>cursorIsTable\<close>, and the translation of a descriptor that contains it is the
  translation of the parts before it continued with the parts after it.
\<close>

theorem unsupported_part_is_skipped:
  assumes "type_tag pt \<notin> set supported_kinds"
  shows "queryPt_step lc indexes cid (c, b) pt = Inr (c, False)
     \<and> queryToCursor lc indexes preparedTables cid (before @ pt # rest) =
         (case queryToCursor lc indexes preparedTables cid before of
            Inl err \<Rightarrow> Inl err
          | Inr reached \<Rightarrow>
              (case loop_from lc indexes cid (reached, False) rest of
                 Inl err \<Rightarrow> Inl err
               | Inr final \<Rightarrow> Inr (fst final)))"
proof -
  have skip: "queryPt_step lc indexes cid state pt = Inr (fst state, False)" for state
    using assms by (cases pt) (simp_all add: supported_kinds_def queryPt_step_def)
  have "queryPt_step lc indexes cid (c, b) pt = Inr (c, False)"
    using skip [of "(c, b)"] by simp
  moreover have "queryToCursor lc indexes preparedTables cid (before @ pt # rest) =
         (case queryToCursor lc indexes preparedTables cid before of
            Inl err \<Rightarrow> Inl err
          | Inr reached \<Rightarrow>
              (case loop_from lc indexes cid (reached, False) rest of
                 Inl err \<Rightarrow> Inl err
               | Inr final \<Rightarrow> Inr (fst final)))"
  proof (cases "getTable preparedTables cid")
    case (Inl err)
    then show ?thesis by (simp add: queryToCursor_def)
  next
    case table: (Inr table)
    show ?thesis
    proof (cases "loop_from lc indexes cid (table, True) before")
      case (Inl err)
      with table show ?thesis by (simp add: queryToCursor_def loop_from_append)
    next
      case (Inr state)
      with table skip [of state] show ?thesis
        by (simp add: queryToCursor_def loop_from_append)
    qed
  qed
  ultimately show ?thesis by simp
qed

theorem unsupported_part_is_skipped_witness:
  "queryPt_step caseless_localeCompare Map.empty ''t'' (Table ''t'', True) (Pt_other ''regex'')
       = Inr (Table ''t'', False)
   \<and> queryToCursor caseless_localeCompare Map.empty Map.empty ''t''
        ([Pt_limit 3] @ Pt_other ''regex'' # [Pt_skip 2])
       = Inr (Skip (Limit (Table ''t'') 3) 2)"
proof -
  have h: "type_tag (Pt_other ''regex'') \<notin> set supported_kinds"
    by (simp add: supported_kinds_def)
  have before: "queryToCursor caseless_localeCompare Map.empty Map.empty ''t'' [Pt_limit 3]
      = Inr (Limit (Table ''t'') 3)"
    by (simp add: queryToCursor_def getTable_def queryPt_step_def)
  show ?thesis
    using unsupported_part_is_skipped [OF h, where lc = caseless_localeCompare
        and indexes = Map.empty and cid = "''t''" and c = "Table ''t''" and b = True
        and preparedTables = Map.empty and before = "[Pt_limit 3]" and rest = "[Pt_skip 2]"]
    by (simp add: before queryPt_step_def)
qed

text \<open>
  C8. An \<open>in\<close> part with no values, on a collection without an index named by its key,
  translates to the bare table, and running that returns the document of the table. With
  the index registered the same part translates to \<open>getAll\<close> with no key, which
  selects nothing.
\<close>

theorem empty_in_scan_keeps_all_index_keeps_none:
  "queryToCursor caseless_localeCompare Map.empty Map.empty ''t'' [Pt_in ''k'' []]
     = Inr (Table ''t'')
   \<and> run refusing_backend (\<lambda>t. [JObj [(''k'', JNum 1)]]) (Table ''t'')
       = Inr [JObj [(''k'', JNum 1)]]
   \<and> queryToCursor caseless_localeCompare [''t'' \<mapsto> {''k''}] Map.empty ''t'' [Pt_in ''k'' []]
       = Inr (GetAll (Table ''t'') (Args []) ''k'')
   \<and> run refusing_backend (\<lambda>t. [JObj [(''k'', JNum 1)]]) (GetAll (Table ''t'') (Args []) ''k'')
       = Inr []"
  by (simp add: queryToCursor_def getTable_def queryPt_step_def has_index_def filter_combined_def)

section \<open>Properties of the index registry\<close>

text \<open>
  C5, as stated, fails: a backend failure of \<open>indexCreate\<close> that is not an
  already-exists conflict is discarded as well, and the call succeeds.
\<close>

theorem createIndex_swallows_failure_counterexample:
  "snd (snd (createIndex Map.empty ''t'' ''byA'' [''a'']
        (Inl (BackendFailure ''connection lost'')) (Inr ()))) = Inr ()
   \<and> BackendFailure ''connection lost'' \<noteq> AlreadyExists ''a''"
  by (simp add: createIndex_def try_catch_def Let_def)

text \<open>
  C5, amended. Whatever the backend answers to the \<open>indexCreate\<close> query, an error of any
  kind included, \<open>createIndex\<close> goes on to send \<open>indexWait\<close> and its outcome is the
  answer to that query, so an error raised while waiting reaches the caller unchanged. The
  index name is in the registry after the call, whatever the two answers were.
\<close>

theorem createIndex_outcome:
  "snd (snd (createIndex indexes cid name keys createResponse waitResponse)) = waitResponse
   \<and> fst (snd (createIndex indexes cid name keys createResponse waitResponse)) =
       [IndexCreate cid (rethinkIndexName keys)
          (if length keys = 1 then SingleField (dotPropRethinkKey (sort keys ! 0) None)
           else FieldArray (map (\<lambda>k. dotPropRethinkKey k None) (sort keys))),
        IndexWait cid (rethinkIndexName keys)]
   \<and> has_index (fst (createIndex indexes cid name keys createResponse waitResponse)) cid
        (rethinkIndexName keys)"
  by (cases createResponse)
     (auto simp: createIndex_def try_catch_def Let_def rethinkIndexName_def has_index_def
           sorted_sort_id split: option.splits)

theorem createIndex_outcome_witness:
  "snd (snd (createIndex Map.empty ''t'' ''byAB'' [''b'', ''a'']
        (Inl (AlreadyExists ''a+b'')) (Inl (BackendFailure ''wait failed''))))
     = Inl (BackendFailure ''wait failed'')
   \<and> has_index (fst (createIndex Map.empty ''t'' ''byAB'' [''b'', ''a'']
        (Inl (AlreadyExists ''a+b'')) (Inl (BackendFailure ''wait failed'')))) ''t''
        (rethinkIndexName [''b'', ''a''])"
  using createIndex_outcome [of Map.empty "''t''" "''byAB''" "[''b'', ''a'']"
      "Inl (AlreadyExists ''a+b'')" "Inl (BackendFailure ''wait failed'')"]
  by simp

section \<open>Properties of the partial update\<close>

text \<open>
  C4. The queries of \<open>updateById\<close> are one field removal for each top-level changed key
  whose new value is loosely undefined, followed by one \<open>update\<close> whose argument is the
  whole new object (swapped, with the id): every property of the new object other than
  \<open>id\<close> and \<open>_id\<close> is in it with its value, whether or not \<open>updates\<close> names it.
\<close>

theorem updateById_sends_whole_object:
  "queries (updateById cid mid newObject updates) =
     map (ReplaceWithout cid mid)
         (filter (\<lambda>k. loosely_null (get_prop newObject k)) (topLevelUpdates updates))
     @ [Update cid mid ((swapKeys ''id'' ''_id'' newObject)(''id'' \<mapsto> mid))]
   \<and> (k \<noteq> ''id'' \<and> k \<noteq> ''_id'' \<longrightarrow>
        ((swapKeys ''id'' ''_id'' newObject)(''id'' \<mapsto> mid)) k = newObject k)"
  by (simp add: updateById_def Let_def swapKeys_def)

text \<open>
  With \<open>updates = {a}\<close> and the new object \<open>{a: 1, b: 2}\<close> the \<open>update\<close> query
  carries \<open>b: 2\<close>, which \<open>replaceObject\<close> leaves out.
\<close>

theorem updateById_sends_whole_object_witness:
  "queries (updateById ''t'' (JStr ''x'') [''a'' \<mapsto> JNum 1, ''b'' \<mapsto> JNum 2] [''a'']) =
     [Update ''t'' (JStr ''x'')
        ((swapKeys ''id'' ''_id'' [''a'' \<mapsto> JNum 1, ''b'' \<mapsto> JNum 2])(''id'' \<mapsto> JStr ''x''))]
   \<and> ((swapKeys ''id'' ''_id'' [''a'' \<mapsto> JNum 1, ''b'' \<mapsto> JNum 2])(''id'' \<mapsto> JStr ''x'')) ''b''
       = Some (JNum 2)
   \<and> replaceObject (updateById ''t'' (JStr ''x'') [''a'' \<mapsto> JNum 1, ''b'' \<mapsto> JNum 2] [''a'']) ''b''
       = None"
proof -
  have keys: "topLevelUpdates [''a''] = [''a'']"
    by (simp add: topLevelUpdates_def)
  have ro: "replaceObject (updateById ''t'' (JStr ''x'') [''a'' \<mapsto> JNum 1, ''b'' \<mapsto> JNum 2] [''a'']) ''b''
       = None"
    by (simp add: updateById_def Let_def keys get_prop_def loosely_null_def)
  show ?thesis
    using ro updateById_sends_whole_object [of "''t''" "JStr ''x''"
        "[''a'' \<mapsto> JNum 1, ''b'' \<mapsto> JNum 2]" "[''a'']" "''b''"]
    by (simp add: keys get_prop_def loosely_null_def)
qed

section \<open>Properties of collection readiness\<close>

text \<open>
  C9. Two calls of \<open>initCollection ('orders')\<close> made before the first one is resumed both
  pass the test on \<open>_preparedTables\<close> and both suspend. Resumed, each makes a future of
  its own and sends its own \<open>tableList\<close> query; the second future replaces the first in
  the map. With the table not there yet both send \<open>tableCreate\<close>, and when the backend
  refuses the second one the future left in the map is rejected.
\<close>

theorem concurrent_initCollection_creates_twice:
  "(let p1 = initCollection_call new_plug ''orders'';
        p2 = initCollection_call p1 ''orders'';
        p3 = initCollection_resume p2;
        p4 = initCollection_resume p3;
        p5 = on_tableList p4 0 ''orders'' (Inr False);
        p6 = on_tableList p5 1 ''orders'' (Inr False);
        p7 = on_tableCreate p6 0 ''orders'' (Inr ());
        p8 = on_tableCreate p7 1 ''orders'' (Inl (AlreadyExists ''orders''))
    in suspended p2 = [''orders'', ''orders'']
       \<and> futures_made p4 = 2
       \<and> sent p6 = [TableListContains ''orders'', TableListContains ''orders'',
                    TableCreate ''orders'', TableCreate ''orders'']
       \<and> creation_attempts p6 ''orders'' = 2
       \<and> prepared p8 ''orders'' = Some 1
       \<and> readiness p8 ''orders'' = Some (Rejected (AlreadyExists ''orders'')))"
  by (simp add: Let_def new_plug_def initCollection_call_def initCollection_resume_def
        on_tableList_def on_tableCreate_def creation_attempts_def readiness_def)

text \<open>
  A call made after the first one was resumed finds the entry and does nothing.
\<close>

lemma sequential_initCollection_is_memoized:
  "initCollection_call (initCollection_resume (initCollection_call new_plug cid)) cid
     = initCollection_resume (initCollection_call new_plug cid)"
  by (simp add: new_plug_def initCollection_call_def initCollection_resume_def)

end
